theory Spec2Isabelle
  imports Complex_Main "HOL-Library.Sublist"
begin

section \<open>Data model\<close>

text \<open>
  The dashboard script \<^verbatim>\<open>App.py\<close> works on three pandas data frames. A data frame is
  modelled as the list of its rows, in row order; a column is the list obtained by
  mapping a field selector over the rows. Years are integers, measurements are floats,
  modelled as real numbers (rounding, overflow and underflow are not part of the
  model). Arithmetic on a year column is the arithmetic of its 64-bit signed type. The value
  \<^verbatim>\<open>NaN\<close>, which pandas produces for a missing number, is kept as a separate value of
  the type \<open>pyfloat\<close>; the generated tables themselves hold only numbers.
\<close>

record row =
  Year :: int

record temp_row = row +
  Temperature_Anomaly :: real
  Region :: string

record co2_row = row +
  CO2_ppm :: real

record sea_row = row +
  Sea_Level_mm :: real

datatype pyfloat = NaN | Val real

datatype py_error = IndexError

type_synonym year_range = "int \<times> int"

section \<open>The pandas operations the script uses\<close>

text \<open>Element-wise comparison of a column with a scalar gives a boolean column.\<close>

definition col_ge :: "int list \<Rightarrow> int \<Rightarrow> bool list" where
  "col_ge c k = map (\<lambda>v. v \<ge> k) c"

definition col_le :: "int list \<Rightarrow> int \<Rightarrow> bool list" where
  "col_le c k = map (\<lambda>v. v \<le> k) c"

definition col_eq :: "'a list \<Rightarrow> 'a \<Rightarrow> bool list" where
  "col_eq c k = map (\<lambda>v. v = k) c"

definition isin :: "'a list \<Rightarrow> 'a list \<Rightarrow> bool list" where
  "isin c vs = map (\<lambda>v. v \<in> set vs) c"

text \<open>The operator \<^verbatim>\<open>&\<close> on two boolean columns of one frame.\<close>

definition mask_and :: "bool list \<Rightarrow> bool list \<Rightarrow> bool list" where
  "mask_and a b = map (\<lambda>(p, q). p \<and> q) (zip a b)"

text \<open>Boolean indexing \<^verbatim>\<open>df[mask]\<close>: the rows whose mask entry is true, in row order.\<close>

definition select_rows :: "'a list \<Rightarrow> bool list \<Rightarrow> 'a list" where
  "select_rows df flags = map fst (filter snd (zip df flags))"

text \<open>
  Positional access \<^verbatim>\<open>.iloc[i]\<close>: a negative position counts from the end, a position
  outside the column raises \<^verbatim>\<open>IndexError\<close>.
\<close>

definition iloc :: "'a list \<Rightarrow> int \<Rightarrow> py_error + 'a" where
  "iloc c i =
     (let n = int (length c); j = (if i < 0 then n + i else i)
      in if 0 \<le> j \<and> j < n then Inr (c ! nat j) else Inl IndexError)"

section \<open>Filtering by year range and region (lines 98 to 122)\<close>

definition filtered_temp :: "temp_row list \<Rightarrow> year_range \<Rightarrow> string list \<Rightarrow> temp_row list" where
  "filtered_temp temp_data year_range selected_regions =
     select_rows temp_data
       (mask_and
         (mask_and (col_ge (map Year temp_data) (fst year_range))
                   (col_le (map Year temp_data) (snd year_range)))
         (isin (map Region temp_data) selected_regions))"

definition filtered_co2 :: "co2_row list \<Rightarrow> year_range \<Rightarrow> co2_row list" where
  "filtered_co2 co2_data year_range =
     select_rows co2_data
       (mask_and (col_ge (map Year co2_data) (fst year_range))
                 (col_le (map Year co2_data) (snd year_range)))"

definition filtered_sea :: "sea_row list \<Rightarrow> year_range \<Rightarrow> sea_row list" where
  "filtered_sea sea_data year_range =
     select_rows sea_data
       (mask_and (col_ge (map Year sea_data) (fst year_range))
                 (col_le (map Year sea_data) (snd year_range)))"

definition global_temp_data :: "temp_row list \<Rightarrow> year_range \<Rightarrow> temp_row list" where
  "global_temp_data temp_data year_range =
     select_rows temp_data
       (mask_and
         (mask_and (col_ge (map Year temp_data) (fst year_range))
                   (col_le (map Year temp_data) (snd year_range)))
         (col_eq (map Region temp_data) ''Global''))"

section \<open>Key climate indicators (lines 112 to 182)\<close>

text \<open>
  A call of \<^verbatim>\<open>st.metric(label, value, delta)\<close> is modelled by the data it shows. The
  script formats numbers into strings; the model keeps the numbers. A block that reads
  a column by position can raise, so each block returns an error or what it displays.
\<close>

datatype metric_value = Number real | Not_Available

datatype metric_delta = Change real | Change_Since real int | Note string

datatype metric = Metric string metric_value metric_delta

definition bind_err :: "py_error + 'a \<Rightarrow> ('a \<Rightarrow> py_error + 'b) \<Rightarrow> py_error + 'b" where
  "bind_err m f = (case m of Inl e \<Rightarrow> Inl e | Inr v \<Rightarrow> f v)"

definition latest_temp :: "temp_row list \<Rightarrow> py_error + real" where
  "latest_temp g = iloc (map Temperature_Anomaly g) (- 1)"

definition first_temp :: "temp_row list \<Rightarrow> py_error + real" where
  "first_temp g = iloc (map Temperature_Anomaly g) 0"

definition col1 :: "temp_row list \<Rightarrow> year_range \<Rightarrow> py_error + metric" where
  "col1 g year_range =
     (if length g > 0 then
        bind_err (latest_temp g) (\<lambda>latest.
        bind_err (first_temp g) (\<lambda>first.
          Inr (Metric ''Global Temp Anomaly'' (Number latest)
                 (Change_Since (latest - first) (fst year_range)))))
      else Inr (Metric ''Global Temp Anomaly'' Not_Available (Note ''Select Global region'')))"

definition col2 :: "co2_row list \<Rightarrow> py_error + metric" where
  "col2 fco2 =
     (if length fco2 > 0 then
        bind_err (iloc (map CO2_ppm fco2) (- 1)) (\<lambda>latest_co2.
        bind_err (iloc (map CO2_ppm fco2) 0) (\<lambda>first_co2.
          Inr (Metric ''CO2 Levels'' (Number latest_co2) (Change (latest_co2 - first_co2)))))
      else Inr (Metric ''CO2 Levels'' Not_Available (Note ''Data starts from 1958'')))"

definition col3 :: "sea_row list \<Rightarrow> py_error + metric" where
  "col3 fsea =
     (if length fsea > 0 then
        bind_err (iloc (map Sea_Level_mm fsea) (- 1)) (\<lambda>latest_sea.
          Inr (Metric ''Sea Level Rise'' (Number latest_sea) (Change_Since latest_sea 1993)))
      else Inr (Metric ''Sea Level Rise'' Not_Available (Note ''Data starts from 1993'')))"

text \<open>
  The fourth block reuses \<^verbatim>\<open>latest_temp\<close> and \<^verbatim>\<open>first_temp\<close>, assigned in the first
  block under the same test, and divides by the number of Global rows in the range.
\<close>

definition col4 :: "temp_row list \<Rightarrow> py_error + metric" where
  "col4 g =
     (if length g > 0 then
        bind_err (latest_temp g) (\<lambda>latest.
        bind_err (first_temp g) (\<lambda>first.
          (let avg_increase = (latest - first) / real (length g) * 10
           in Inr (Metric ''Warming Rate'' (Number avg_increase)
                     (Note (if avg_increase > 15 / 100 then ''Accelerating'' else ''Stable''))))))
      else Inr (Metric ''Warming Rate'' Not_Available (Note ''Select Global region'')))"

text \<open>
  One pass of the script from the filters to the indicator row: the three filtered
  tables are computed from the sidebar's year range and region selection, then the four
  metric blocks run in order.
\<close>

definition key_indicators ::
  "temp_row list \<Rightarrow> co2_row list \<Rightarrow> sea_row list \<Rightarrow> year_range \<Rightarrow> string list
     \<Rightarrow> (py_error + metric) \<times> (py_error + metric) \<times> (py_error + metric) \<times> (py_error + metric)" where
  "key_indicators temp_data co2_data sea_data year_range selected_regions =
     (let ftemp = filtered_temp temp_data year_range selected_regions;
          fco2 = filtered_co2 co2_data year_range;
          fsea = filtered_sea sea_data year_range;
          g = global_temp_data temp_data year_range
      in (col1 g year_range, col2 fco2, col3 fsea, col4 g))"

section \<open>Temperature tab: decade averages (lines 189 to 251)\<close>

datatype 'a panel = Shown 'a | Info string | Warning string

definition decade_region :: "temp_row list \<Rightarrow> py_error + string" where
  "decade_region ftemp =
     (if ''Global'' \<in> set (map Region ftemp) then Inr ''Global''
      else iloc (map Region ftemp) 0)"

definition decade_avg :: "temp_row list \<Rightarrow> string \<Rightarrow> temp_row list" where
  "decade_avg ftemp region = select_rows ftemp (col_eq (map Region ftemp) region)"

text \<open>
  The year column of a frame has the type \<^verbatim>\<open>int64\<close>: a product that leaves the range
  from \<open>- 2 ^ 63\<close> to \<open>2 ^ 63 - 1\<close> wraps around.
\<close>

definition wrap64 :: "int \<Rightarrow> int" where
  "wrap64 v = (v + 2 ^ 63) mod 2 ^ 64 - 2 ^ 63"

text \<open>
  The column \<^verbatim>\<open>Decade\<close>: floor division of the year column by ten, times ten, both on
  \<^verbatim>\<open>int64\<close>. The quotient of a 64-bit year is in range; the product can wrap.
\<close>

definition Decade :: "temp_row list \<Rightarrow> int list" where
  "Decade df = map (\<lambda>y. wrap64 ((y div 10) * 10)) (map Year df)"

text \<open>The mean of a column; pandas gives \<^verbatim>\<open>NaN\<close> for an empty one.\<close>

definition mean :: "real list \<Rightarrow> pyfloat" where
  "mean c = (if c = [] then NaN else Val (sum_list c / real (length c)))"

text \<open>
  \<^verbatim>\<open>groupby(key)[col].mean().reset_index()\<close>: one row per key that occurs, keys in
  ascending order, with the mean of the values of the rows that carry the key.
\<close>

definition groupby_mean :: "int list \<Rightarrow> real list \<Rightarrow> (int \<times> pyfloat) list" where
  "groupby_mean keys vals =
     map (\<lambda>k. (k, mean (map snd (filter (\<lambda>kv. fst kv = k) (zip keys vals)))))
         (sort (remdups keys))"

definition decade_summary :: "temp_row list \<Rightarrow> (int \<times> pyfloat) list" where
  "decade_summary df = groupby_mean (Decade df) (map Temperature_Anomaly df)"

definition latest_year_data :: "temp_row list \<Rightarrow> year_range \<Rightarrow> temp_row list panel" where
  "latest_year_data ftemp year_range =
     (let d = select_rows ftemp (col_eq (map Year ftemp) (snd year_range))
      in if length d > 0 then Shown d
         else Info ''No data available for the latest year in selected range'')"

definition region_warning :: string where
  "region_warning = ''Please select at least one region from the sidebar to view temperature data.''"

definition tab1 ::
  "temp_row list \<Rightarrow> year_range
     \<Rightarrow> py_error + (temp_row list \<times> (int \<times> pyfloat) list \<times> temp_row list panel) panel" where
  "tab1 ftemp year_range =
     (if length ftemp > 0 then
        bind_err (decade_region ftemp) (\<lambda>region.
          Inr (Shown (ftemp, decade_summary (decade_avg ftemp region),
                      latest_year_data ftemp year_range)))
      else Inr (Warning region_warning))"

section \<open>CO2 tab: growth rate (lines 253 to 293)\<close>

text \<open>
  \<^verbatim>\<open>Series.diff()\<close> subtracts from each entry the entry one row before it. The column
  shifted down by one row has \<^verbatim>\<open>NaN\<close> in its first row, and a difference with
  \<^verbatim>\<open>NaN\<close> is \<^verbatim>\<open>NaN\<close>.
\<close>

definition shift1 :: "pyfloat list \<Rightarrow> pyfloat list" where
  "shift1 c = (if c = [] then [] else NaN # butlast c)"

fun sub_float :: "pyfloat \<Rightarrow> pyfloat \<Rightarrow> pyfloat" where
  "sub_float (Val a) (Val b) = Val (a - b)"
| "sub_float _ _ = NaN"

definition diff :: "real list \<Rightarrow> pyfloat list" where
  "diff c = map (\<lambda>(a, b). sub_float a b) (zip (map Val c) (shift1 (map Val c)))"

definition Growth_Rate :: "co2_row list \<Rightarrow> pyfloat list" where
  "Growth_Rate fco2 = diff (map CO2_ppm fco2)"

definition co2_growth :: "co2_row list \<Rightarrow> (co2_row \<times> pyfloat) list" where
  "co2_growth fco2 = zip fco2 (Growth_Rate fco2)"

definition co2_guidance :: string where
  "co2_guidance = ''CO2 data is only available from 1958 onwards (when measurements began at Mauna Loa Observatory). Please adjust the year range to include years from 1958 or later.''"

definition tab2 :: "co2_row list \<Rightarrow> (co2_row list \<times> (co2_row \<times> pyfloat) list) panel" where
  "tab2 fco2 =
     (if length fco2 > 0 then Shown (fco2, co2_growth fco2)
      else Info co2_guidance)"

section \<open>Sea level tab: projection (lines 295 to 335)\<close>

text \<open>Python's \<^verbatim>\<open>range(a, b)\<close>: from \<open>a\<close>, up to but without \<open>b\<close>.\<close>

definition py_range :: "int \<Rightarrow> int \<Rightarrow> int list" where
  "py_range a b = [a..b - 1]"

text \<open>
  The script projects from the last filtered sea level, taken at the year
  \<^verbatim>\<open>year_range[1]\<close>, with the rate \<^verbatim>\<open>3.3\<close> and the horizon \<^verbatim>\<open>2100\<close> written as
  literals. \<open>project\<close> is that computation with the starting point, the rate and the
  horizon as arguments; \<open>projection_df\<close> is the script's call of it.
\<close>

definition project :: "int \<times> real \<Rightarrow> real \<Rightarrow> int \<Rightarrow> (int \<times> real) list" where
  "project lastKnownPoint rate horizon =
     (let projection_years = py_range (fst lastKnownPoint) horizon;
          projected_rise =
            map (\<lambda>year. snd lastKnownPoint + real_of_int (year - fst lastKnownPoint) * rate)
                projection_years
      in zip projection_years projected_rise)"

definition current_rate :: real where
  "current_rate = 33 / 10"

definition projection_df :: "sea_row list \<Rightarrow> year_range \<Rightarrow> py_error + (int \<times> real) list" where
  "projection_df fsea year_range =
     bind_err (iloc (map Sea_Level_mm fsea) (- 1)) (\<lambda>last_rise.
       Inr (project (snd year_range, last_rise) current_rate 2100))"

definition sea_guidance :: string where
  "sea_guidance = ''Sea level data is only available from 1993 onwards (satellite era). Please adjust the year range to include years from 1993 or later.''"

definition tab3 ::
  "sea_row list \<Rightarrow> year_range \<Rightarrow> py_error + (sea_row list \<times> (int \<times> real) list \<times> real) panel" where
  "tab3 fsea year_range =
     (if length fsea > 0 then
        bind_err (projection_df fsea year_range) (\<lambda>df.
        bind_err (iloc (map snd df) (- 1)) (\<lambda>final_rise.
          Inr (Shown (fsea, df, final_rise / 1000))))
      else Inr (Info sea_guidance))"

section \<open>Correlation tab (lines 337 to 368)\<close>

text \<open>
  \<^verbatim>\<open>pd.merge(left, right, on='Year', how='inner')\<close>: for each left row, in order, one
  joined row per right row of the same year.
\<close>

definition merged_data :: "temp_row list \<Rightarrow> co2_row list \<Rightarrow> (int \<times> real \<times> real) list" where
  "merged_data temp_data co2_data =
     concat (map (\<lambda>l. map (\<lambda>r. (Year l, Temperature_Anomaly l, CO2_ppm r))
                          (filter (\<lambda>r. Year r = Year l) co2_data))
                 (select_rows temp_data (col_eq (map Region temp_data) ''Global'')))"

text \<open>
  \<^verbatim>\<open>Series.corr\<close> (Pearson) on two columns of one frame. pandas returns \<^verbatim>\<open>NaN\<close> for
  an empty column; otherwise numpy divides the covariance (with \<open>n - 1\<close> degrees of
  freedom) by the two standard deviations and clips the quotient into the interval
  from -1 to 1. With a single row the covariance is zero over zero, which is \<^verbatim>\<open>NaN\<close>.
  Nothing is raised.

  With at least two rows and a constant column the exact quotient is zero over zero as
  well, but in float64 the rounding of the mean decides whether the deviations are
  exactly zero: the call returns \<^verbatim>\<open>NaN\<close> for the column 1.0, 1.0 and a clipped number
  for the column 0.1, 0.1, 0.1. Measurements being real numbers here, the model does
  not choose: \<open>corr a b v\<close> says that \<open>v\<close> is a value the call can return, and on a
  constant column every clipped number and \<^verbatim>\<open>NaN\<close> qualify.
\<close>

definition centred :: "real list \<Rightarrow> real list" where
  "centred c = map (\<lambda>v. v - sum_list c / real (length c)) c"

definition dot :: "real list \<Rightarrow> real list \<Rightarrow> real" where
  "dot a b = sum_list (map (\<lambda>(x, y). x * y) (zip a b))"

definition clip_unit :: "real \<Rightarrow> real" where
  "clip_unit x = max (- 1) (min 1 x)"

definition corr :: "real list \<Rightarrow> real list \<Rightarrow> pyfloat \<Rightarrow> bool" where
  "corr a b v =
     (let n = length a in
      if n = 0 then v = NaN
      else if n - 1 = 0 then v = NaN
      else
        (let da = centred a; db = centred b;
             cab = dot da db / real (n - 1);
             caa = dot da da / real (n - 1);
             cbb = dot db db / real (n - 1)
         in if caa = 0 \<or> cbb = 0
            then (case v of NaN \<Rightarrow> True | Val x \<Rightarrow> - 1 \<le> x \<and> x \<le> 1)
            else v = Val (clip_unit (cab / sqrt caa / sqrt cbb))))"

text \<open>The two measurement columns of the merged frame.\<close>

definition merged_temp :: "(int \<times> real \<times> real) list \<Rightarrow> real list" where
  "merged_temp m = map (\<lambda>r. fst (snd r)) m"

definition merged_co2 :: "(int \<times> real \<times> real) list \<Rightarrow> real list" where
  "merged_co2 m = map (\<lambda>r. snd (snd r)) m"

definition correlation :: "temp_row list \<Rightarrow> co2_row list \<Rightarrow> pyfloat \<Rightarrow> bool" where
  "correlation temp_data co2_data v =
     (let m = merged_data temp_data co2_data
      in corr (merged_temp m) (merged_co2 m) v)"

text \<open>
  The textbook Pearson coefficient of two samples, for comparison with \<open>corr\<close>: the sum
  of the products of the deviations from the means, over the root of the product of
  the two sums of squared deviations.
\<close>

definition pearson_r :: "real list \<Rightarrow> real list \<Rightarrow> real" where
  "pearson_r a b =
     dot (centred a) (centred b)
       / sqrt (dot (centred a) (centred a) * dot (centred b) (centred b))"

section \<open>Downloads (lines 403 to 440)\<close>

definition download_co2 :: "co2_row list \<Rightarrow> co2_row list panel" where
  "download_co2 fco2 =
     (if length fco2 > 0 then Shown fco2 else Info ''No CO2 data available for selected years'')"

definition download_sea :: "sea_row list \<Rightarrow> sea_row list panel" where
  "download_sea fsea =
     (if length fsea > 0 then Shown fsea else Info ''No sea level data available for selected years'')"

section \<open>Notions of the specification\<close>

text \<open>
  The specification's decade key, in its own words: the floor of the year over ten,
  times ten. It is compared below with the column the script computes.
\<close>

definition decade_of :: "int \<Rightarrow> int" where
  "decade_of y = \<lfloor>real_of_int y / 10\<rfloor> * 10"

text \<open>
  A year range lies entirely outside the domain of a table when it ends before every
  row of the table or starts after every row.
\<close>

definition outside_domain :: "('a row_scheme) list \<Rightarrow> year_range \<Rightarrow> bool" where
  "outside_domain df year_range =
     ((\<forall>r \<in> set df. snd year_range < Year r) \<or> (\<forall>r \<in> set df. Year r < fst year_range))"

section \<open>Boolean indexing is list filtering\<close>

lemma select_rows_map:
  "select_rows df (map P df) = filter P df"
  by (induction df) (simp_all add: select_rows_def)

lemma mask_and_map:
  "mask_and (map P c) (map Q c) = map (\<lambda>v. P v \<and> Q v) c"
  by (induction c) (simp_all add: mask_and_def)

lemma year_mask:
  "mask_and (col_ge (map Year df) lo) (col_le (map Year df) hi)
     = map (\<lambda>r. lo \<le> Year r \<and> Year r \<le> hi) df"
  by (induction df) (simp_all add: mask_and_def col_ge_def col_le_def)

lemma filtered_temp_filter:
  "filtered_temp t yr rs
     = filter (\<lambda>r. fst yr \<le> Year r \<and> Year r \<le> snd yr \<and> Region r \<in> set rs) t"
proof -
  have "mask_and (map (\<lambda>r. fst yr \<le> Year r \<and> Year r \<le> snd yr) t) (isin (map Region t) rs)
          = map (\<lambda>r. (fst yr \<le> Year r \<and> Year r \<le> snd yr) \<and> Region r \<in> set rs) t"
    by (induction t) (simp_all add: mask_and_def isin_def)
  then show ?thesis
    by (simp add: filtered_temp_def year_mask select_rows_map conj_assoc)
qed

lemma filtered_co2_filter:
  "filtered_co2 c yr = filter (\<lambda>r. fst yr \<le> Year r \<and> Year r \<le> snd yr) c"
  by (simp add: filtered_co2_def year_mask select_rows_map)

lemma filtered_sea_filter:
  "filtered_sea s yr = filter (\<lambda>r. fst yr \<le> Year r \<and> Year r \<le> snd yr) s"
  by (simp add: filtered_sea_def year_mask select_rows_map)

lemma global_temp_data_filter:
  "global_temp_data t yr
     = filter (\<lambda>r. fst yr \<le> Year r \<and> Year r \<le> snd yr \<and> Region r = ''Global'') t"
proof -
  have "mask_and (map (\<lambda>r. fst yr \<le> Year r \<and> Year r \<le> snd yr) t) (col_eq (map Region t) ''Global'')
          = map (\<lambda>r. (fst yr \<le> Year r \<and> Year r \<le> snd yr) \<and> Region r = ''Global'') t"
    by (induction t) (simp_all add: mask_and_def col_eq_def)
  then show ?thesis
    by (simp add: global_temp_data_def year_mask select_rows_map conj_assoc)
qed

section \<open>Properties of the filters\<close>

text \<open>
  Claim C1. For every temperature table, year range and region selection, the filtered
  temperature table is exactly the points of the table whose year lies between the two
  ends of the range (both included) and whose region is selected, in the table's
  order: it is a subsequence of the table, a row of the table is in it precisely when
  it meets both conditions, and it has at most as many rows as the table.
\<close>

theorem filtered_temp_subsequence:
  "filtered_temp t yr rs
     = filter (\<lambda>r. fst yr \<le> Year r \<and> Year r \<le> snd yr \<and> Region r \<in> set rs) t
   \<and> subseq (filtered_temp t yr rs) t
   \<and> set (filtered_temp t yr rs)
       = {r \<in> set t. fst yr \<le> Year r \<and> Year r \<le> snd yr \<and> Region r \<in> set rs}
   \<and> length (filtered_temp t yr rs) \<le> length t"
  by (simp add: filtered_temp_filter)

text \<open>
  Claim C5. Filtering is idempotent: filtering the filtered temperature table again
  with the same year range and region selection changes nothing, and the same holds
  for the CO2 and sea level tables with the same year range.
\<close>

theorem filtering_idempotent:
  "filtered_temp (filtered_temp t yr rs) yr rs = filtered_temp t yr rs
   \<and> filtered_co2 (filtered_co2 c yr) yr = filtered_co2 c yr
   \<and> filtered_sea (filtered_sea s yr) yr = filtered_sea s yr"
  by (simp add: filtered_temp_filter filtered_co2_filter filtered_sea_filter)

text \<open>
  Claim C10. When the start of the year range is greater than its end, the three
  filters (temperature, CO2, sea level) all return the empty table; nothing is raised.
\<close>

theorem inverted_range_empty:
  "fst yr > snd yr \<Longrightarrow>
     filtered_temp t yr rs = [] \<and> filtered_co2 c yr = [] \<and> filtered_sea s yr = []"
  by (auto simp add: filtered_temp_filter filtered_co2_filter filtered_sea_filter
        filter_empty_conv)

theorem inverted_range_empty_witness:
  "fst (2000 :: int, 1999 :: int) > snd (2000 :: int, 1999 :: int)
   \<and> filtered_temp [\<lparr>Year = 1999, Temperature_Anomaly = 4 / 10, Region = ''Global''\<rparr>,
                     \<lparr>Year = 2000, Temperature_Anomaly = 5 / 10, Region = ''Arctic''\<rparr>]
        (2000, 1999) [''Global'', ''Arctic''] = []
   \<and> filtered_co2 [\<lparr>Year = 1999, CO2_ppm = 368\<rparr>, \<lparr>Year = 2000, CO2_ppm = 370\<rparr>] (2000, 1999) = []
   \<and> filtered_sea [\<lparr>Year = 1999, Sea_Level_mm = 20\<rparr>, \<lparr>Year = 2000, Sea_Level_mm = 23\<rparr>]
        (2000, 1999) = []"
  using inverted_range_empty [of "(2000, 1999)"
      "[\<lparr>Year = 1999, Temperature_Anomaly = 4 / 10, Region = ''Global''\<rparr>,
        \<lparr>Year = 2000, Temperature_Anomaly = 5 / 10, Region = ''Arctic''\<rparr>]"
      "[''Global'', ''Arctic'']"
      "[\<lparr>Year = 1999, CO2_ppm = 368\<rparr>, \<lparr>Year = 2000, CO2_ppm = 370\<rparr>]"
      "[\<lparr>Year = 1999, Sea_Level_mm = 20\<rparr>, \<lparr>Year = 2000, Sea_Level_mm = 23\<rparr>]"]
  by simp

section \<open>Properties of the indicator row\<close>

lemma iloc_last: "c \<noteq> [] \<Longrightarrow> iloc c (- 1) = Inr (last c)"
  by (cases c rule: rev_cases) (simp_all add: iloc_def Let_def nth_append)

lemma iloc_first: "c \<noteq> [] \<Longrightarrow> iloc c 0 = Inr (hd c)"
  by (cases c) (simp_all add: iloc_def Let_def)

lemma latest_temp_last: "g \<noteq> [] \<Longrightarrow> latest_temp g = Inr (Temperature_Anomaly (last g))"
  by (simp add: latest_temp_def iloc_last last_map)

lemma first_temp_hd: "g \<noteq> [] \<Longrightarrow> first_temp g = Inr (Temperature_Anomaly (hd g))"
  by (simp add: first_temp_def iloc_first hd_map)

text \<open>
  Claim C6. The warming rate is computed only when the Global rows of the range are not
  empty (count greater than zero), and is then the anomaly of the last row minus the
  anomaly of the first row, divided by the number of rows, times ten. With no rows the
  block computes nothing and shows "not available".
\<close>

theorem warming_rate_formula:
  "(g \<noteq> [] \<longrightarrow>
      col4 g = Inr (Metric ''Warming Rate''
                 (Number ((Temperature_Anomaly (last g) - Temperature_Anomaly (hd g))
                            / real (length g) * 10))
                 (Note (if (Temperature_Anomaly (last g) - Temperature_Anomaly (hd g))
                            / real (length g) * 10 > 15 / 100
                        then ''Accelerating'' else ''Stable''))))
   \<and> (g = [] \<longrightarrow>
      col4 g = Inr (Metric ''Warming Rate'' Not_Available (Note ''Select Global region'')))"
  by (simp add: col4_def bind_err_def latest_temp_last first_temp_hd Let_def)

theorem warming_rate_formula_witness:
  "col4 [\<lparr>Year = 1980, Temperature_Anomaly = 1 / 2, Region = ''Global''\<rparr>,
         \<lparr>Year = 1981, Temperature_Anomaly = 7 / 10, Region = ''Global''\<rparr>]
     = Inr (Metric ''Warming Rate'' (Number 1) (Note ''Accelerating''))
   \<and> col4 [] = Inr (Metric ''Warming Rate'' Not_Available (Note ''Select Global region''))"
  using warming_rate_formula [of
      "[\<lparr>Year = 1980, Temperature_Anomaly = 1 / 2, Region = ''Global''\<rparr>,
        \<lparr>Year = 1981, Temperature_Anomaly = 7 / 10, Region = ''Global''\<rparr>]"]
    warming_rate_formula [of "[]"]
  by simp

text \<open>
  Claim C9. The Global temperature indicators (the latest anomaly with its change since
  the start of the range, and the warming rate) are computed from the Global rows of
  the whole temperature table within the year range; the region selection plays no
  part. For one year range, any two selections, the empty one included, give the same
  indicators.
\<close>

theorem global_metrics_ignore_regions:
  "fst (key_indicators t c s yr rs1) = fst (key_indicators t c s yr rs2)
   \<and> snd (snd (snd (key_indicators t c s yr rs1)))
       = snd (snd (snd (key_indicators t c s yr rs2)))
   \<and> key_indicators t c s yr rs1 = key_indicators t c s yr []
   \<and> fst (key_indicators t c s yr rs1)
       = col1 (filter (\<lambda>r. fst yr \<le> Year r \<and> Year r \<le> snd yr \<and> Region r = ''Global'') t) yr
   \<and> snd (snd (snd (key_indicators t c s yr rs1)))
       = col4 (filter (\<lambda>r. fst yr \<le> Year r \<and> Year r \<le> snd yr \<and> Region r = ''Global'') t)"
  by (simp add: key_indicators_def Let_def global_temp_data_filter)

lemma outside_no_match:
  "outside_domain df yr \<Longrightarrow> filter (\<lambda>r. fst yr \<le> Year r \<and> Year r \<le> snd yr) df = []"
  by (auto simp add: outside_domain_def filter_empty_conv)

text \<open>
  Claim C8. When the year range lies entirely outside the years of a table (for the CO2
  table, a range that ends before 1958), the filter returns the empty table and raises
  nothing, and every consumer of the filtered table shows a "not available" metric or
  a guidance message instead of failing: the CO2 metric, tab and download; the sea
  level metric, tab and download; the temperature tab and the two Global indicators.
\<close>

theorem out_of_domain_is_empty_not_error:
  "(outside_domain c yr \<longrightarrow>
      filtered_co2 c yr = []
      \<and> col2 (filtered_co2 c yr)
          = Inr (Metric ''CO2 Levels'' Not_Available (Note ''Data starts from 1958''))
      \<and> tab2 (filtered_co2 c yr) = Info co2_guidance
      \<and> download_co2 (filtered_co2 c yr) = Info ''No CO2 data available for selected years'')
   \<and> (outside_domain s yr \<longrightarrow>
      filtered_sea s yr = []
      \<and> col3 (filtered_sea s yr)
          = Inr (Metric ''Sea Level Rise'' Not_Available (Note ''Data starts from 1993''))
      \<and> tab3 (filtered_sea s yr) yr = Inr (Info sea_guidance)
      \<and> download_sea (filtered_sea s yr)
          = Info ''No sea level data available for selected years'')
   \<and> (outside_domain t yr \<longrightarrow>
      filtered_temp t yr rs = []
      \<and> tab1 (filtered_temp t yr rs) yr = Inr (Warning region_warning)
      \<and> global_temp_data t yr = []
      \<and> col1 (global_temp_data t yr) yr
          = Inr (Metric ''Global Temp Anomaly'' Not_Available (Note ''Select Global region''))
      \<and> col4 (global_temp_data t yr)
          = Inr (Metric ''Warming Rate'' Not_Available (Note ''Select Global region'')))"
proof (intro conjI impI)
  assume "outside_domain c yr"
  then show e: "filtered_co2 c yr = []"
    by (simp add: filtered_co2_filter outside_no_match)
  show "col2 (filtered_co2 c yr)
          = Inr (Metric ''CO2 Levels'' Not_Available (Note ''Data starts from 1958''))"
    by (simp add: e col2_def)
  show "tab2 (filtered_co2 c yr) = Info co2_guidance"
    by (simp add: e tab2_def)
  show "download_co2 (filtered_co2 c yr) = Info ''No CO2 data available for selected years''"
    by (simp add: e download_co2_def)
next
  assume "outside_domain s yr"
  then show e: "filtered_sea s yr = []"
    by (simp add: filtered_sea_filter outside_no_match)
  show "col3 (filtered_sea s yr)
          = Inr (Metric ''Sea Level Rise'' Not_Available (Note ''Data starts from 1993''))"
    by (simp add: e col3_def)
  show "tab3 (filtered_sea s yr) yr = Inr (Info sea_guidance)"
    by (simp add: e tab3_def)
  show "download_sea (filtered_sea s yr)
          = Info ''No sea level data available for selected years''"
    by (simp add: e download_sea_def)
next
  assume "outside_domain t yr"
  then have n: "\<And>r. r \<in> set t \<Longrightarrow> \<not> (fst yr \<le> Year r \<and> Year r \<le> snd yr)"
    by (auto simp add: outside_domain_def)
  show e: "filtered_temp t yr rs = []"
    using n by (auto simp add: filtered_temp_filter filter_empty_conv)
  show "tab1 (filtered_temp t yr rs) yr = Inr (Warning region_warning)"
    by (simp add: e tab1_def)
  show g: "global_temp_data t yr = []"
    using n by (auto simp add: global_temp_data_filter filter_empty_conv)
  show "col1 (global_temp_data t yr) yr
          = Inr (Metric ''Global Temp Anomaly'' Not_Available (Note ''Select Global region''))"
    by (simp add: g col1_def)
  show "col4 (global_temp_data t yr)
          = Inr (Metric ''Warming Rate'' Not_Available (Note ''Select Global region''))"
    by (simp add: g col4_def)
qed

theorem out_of_domain_is_empty_not_error_witness:
  "outside_domain [\<lparr>Year = 1958, CO2_ppm = 315\<rparr>, \<lparr>Year = 1959, CO2_ppm = 317\<rparr>] (1900, 1950)
   \<and> filtered_co2 [\<lparr>Year = 1958, CO2_ppm = 315\<rparr>, \<lparr>Year = 1959, CO2_ppm = 317\<rparr>] (1900, 1950) = []
   \<and> col2 (filtered_co2 [\<lparr>Year = 1958, CO2_ppm = 315\<rparr>, \<lparr>Year = 1959, CO2_ppm = 317\<rparr>]
             (1900, 1950))
       = Inr (Metric ''CO2 Levels'' Not_Available (Note ''Data starts from 1958''))
   \<and> outside_domain [\<lparr>Year = 1993, Sea_Level_mm = 0\<rparr>] (1900, 1950)
   \<and> filtered_sea [\<lparr>Year = 1993, Sea_Level_mm = 0\<rparr>] (1900, 1950) = []
   \<and> col3 (filtered_sea [\<lparr>Year = 1993, Sea_Level_mm = 0\<rparr>] (1900, 1950))
       = Inr (Metric ''Sea Level Rise'' Not_Available (Note ''Data starts from 1993''))
   \<and> outside_domain [\<lparr>Year = 1960, Temperature_Anomaly = 1 / 2, Region = ''Global''\<rparr>]
        (1900, 1950)
   \<and> filtered_temp [\<lparr>Year = 1960, Temperature_Anomaly = 1 / 2, Region = ''Global''\<rparr>]
        (1900, 1950) [''Global''] = []"
proof -
  have c: "outside_domain [\<lparr>Year = 1958, CO2_ppm = 315\<rparr>, \<lparr>Year = 1959, CO2_ppm = 317\<rparr>]
             (1900, 1950)"
    by (simp add: outside_domain_def)
  have s: "outside_domain [\<lparr>Year = 1993, Sea_Level_mm = 0\<rparr>] (1900, 1950)"
    by (simp add: outside_domain_def)
  have t: "outside_domain [\<lparr>Year = 1960, Temperature_Anomaly = 1 / 2, Region = ''Global''\<rparr>]
             (1900, 1950)"
    by (simp add: outside_domain_def)
  show ?thesis
    using c s t out_of_domain_is_empty_not_error [of
      "[\<lparr>Year = 1958, CO2_ppm = 315\<rparr>, \<lparr>Year = 1959, CO2_ppm = 317\<rparr>]" "(1900, 1950)"
      "[\<lparr>Year = 1993, Sea_Level_mm = 0\<rparr>]"
      "[\<lparr>Year = 1960, Temperature_Anomaly = 1 / 2, Region = ''Global''\<rparr>]" "[''Global'']"]
    by blast
qed

section \<open>Properties of the decade averages\<close>

lemma wrap64_id: "- (2 ^ 63) \<le> v \<Longrightarrow> v < 2 ^ 63 \<Longrightarrow> wrap64 v = v"
  by (simp add: wrap64_def)

lemma decade_of_div: "(y div 10) * 10 = decade_of y"
  by (simp add: decade_of_def floor_divide_of_int_eq [of y 10, simplified])

lemma decade_in_range:
  assumes "- (2 ^ 63) + 8 \<le> y" "y < 2 ^ 63"
  shows "wrap64 ((y div 10) * 10) = decade_of y"
proof -
  have "- 9223372036854775800 \<le> y" "y < 9223372036854775808"
    using assms by simp_all
  then have "- 9223372036854775800 \<le> (y div 10) * 10" "(y div 10) * 10 < 9223372036854775808"
    by presburger+
  then have "wrap64 ((y div 10) * 10) = (y div 10) * 10"
    by (intro wrap64_id) simp_all
  then show ?thesis
    by (simp add: decade_of_div)
qed

text \<open>
  At the lowest 64-bit year the product wraps, and the key is not the decade of the
  year: the range of years in the statements below cannot be dropped.
\<close>

lemma Decade_wraps:
  "Decade [\<lparr>Year = - (2 ^ 63), Temperature_Anomaly = 0, Region = ''Global''\<rparr>]
     = [9223372036854775806]"
  by (simp add: Decade_def wrap64_def)

lemma Decade_floor:
  "\<forall>r \<in> set df. - (2 ^ 63) + 8 \<le> Year r \<and> Year r < 2 ^ 63
     \<Longrightarrow> Decade df = map (\<lambda>r. decade_of (Year r)) df"
  by (simp add: Decade_def decade_in_range)

lemma group_values:
  "map snd (filter (\<lambda>kv. fst kv = k) (zip (map f df) (map g df)))
     = map g (filter (\<lambda>r. f r = k) df)"
  by (induction df) simp_all

lemma decade_summary_eq:
  "\<forall>r \<in> set df. - (2 ^ 63) + 8 \<le> Year r \<and> Year r < 2 ^ 63
     \<Longrightarrow> decade_summary df
     = map (\<lambda>k. (k, mean (map Temperature_Anomaly (filter (\<lambda>r. decade_of (Year r) = k) df))))
           (sort (remdups (map (\<lambda>r. decade_of (Year r)) df)))"
  by (simp add: decade_summary_def groupby_mean_def Decade_floor group_values)

lemma decade_summary_keys:
  "\<forall>r \<in> set df. - (2 ^ 63) + 8 \<le> Year r \<and> Year r < 2 ^ 63
     \<Longrightarrow> map fst (decade_summary df) = sort (remdups (map (\<lambda>r. decade_of (Year r)) df))"
  by (simp add: decade_summary_eq comp_def)

text \<open>
  Claim C7. The years of a table are 64-bit integers; let them be at least
  \<open>- 2 ^ 63 + 8\<close>, so that the decade of no year lies below the 64-bit range (the
  years of the dashboard run from 1880 to 2023). Then the decade column gives every
  row the key floor(year / 10) times 10. The summary has one row per decade that has
  at least one point, in ascending order and without repetition, so each point falls
  under exactly one key of the summary and a decade without points does not appear.
  The value of a summary row is the mean of the anomalies of the points of that decade.
\<close>

theorem decade_average_groups:
  assumes "\<forall>r \<in> set df. - (2 ^ 63) + 8 \<le> Year r \<and> Year r < 2 ^ 63"
  shows "Decade df = map (\<lambda>r. \<lfloor>real_of_int (Year r) / 10\<rfloor> * 10) df
   \<and> (\<forall>r \<in> set df. \<exists>!k. k \<in> set (map fst (decade_summary df))
                           \<and> k = \<lfloor>real_of_int (Year r) / 10\<rfloor> * 10)
   \<and> distinct (map fst (decade_summary df))
   \<and> sorted (map fst (decade_summary df))
   \<and> set (map fst (decade_summary df)) = (\<lambda>r. \<lfloor>real_of_int (Year r) / 10\<rfloor> * 10) ` set df
   \<and> (\<forall>(k, m) \<in> set (decade_summary df).
         filter (\<lambda>r. \<lfloor>real_of_int (Year r) / 10\<rfloor> * 10 = k) df \<noteq> []
         \<and> m = Val (sum_list (map Temperature_Anomaly
                                (filter (\<lambda>r. \<lfloor>real_of_int (Year r) / 10\<rfloor> * 10 = k) df))
                      / real (length (filter (\<lambda>r. \<lfloor>real_of_int (Year r) / 10\<rfloor> * 10 = k) df))))"
proof (intro conjI)
  note ks = decade_summary_keys [OF assms]
  show "Decade df = map (\<lambda>r. \<lfloor>real_of_int (Year r) / 10\<rfloor> * 10) df"
    using Decade_floor [OF assms] by (simp add: decade_of_def)
  show keys: "set (map fst (decade_summary df))
                = (\<lambda>r. \<lfloor>real_of_int (Year r) / 10\<rfloor> * 10) ` set df"
    by (simp only: ks) (simp add: decade_of_def)
  show "\<forall>r \<in> set df. \<exists>!k. k \<in> set (map fst (decade_summary df))
                           \<and> k = \<lfloor>real_of_int (Year r) / 10\<rfloor> * 10"
    unfolding keys by auto
  show "distinct (map fst (decade_summary df))"
    by (simp only: ks) simp
  show "sorted (map fst (decade_summary df))"
    by (simp only: ks) simp
  show "\<forall>(k, m) \<in> set (decade_summary df).
         filter (\<lambda>r. \<lfloor>real_of_int (Year r) / 10\<rfloor> * 10 = k) df \<noteq> []
         \<and> m = Val (sum_list (map Temperature_Anomaly
                                (filter (\<lambda>r. \<lfloor>real_of_int (Year r) / 10\<rfloor> * 10 = k) df))
                      / real (length (filter (\<lambda>r. \<lfloor>real_of_int (Year r) / 10\<rfloor> * 10 = k) df)))"
  proof (clarify)
    fix k m
    assume "(k, m) \<in> set (decade_summary df)"
    then have k: "k \<in> (\<lambda>r. decade_of (Year r)) ` set df"
      and m: "m = mean (map Temperature_Anomaly (filter (\<lambda>r. decade_of (Year r) = k) df))"
      by (auto simp add: decade_summary_eq [OF assms])
    from k have "filter (\<lambda>r. decade_of (Year r) = k) df \<noteq> []"
      by (auto simp add: filter_empty_conv)
    with m show "filter (\<lambda>r. \<lfloor>real_of_int (Year r) / 10\<rfloor> * 10 = k) df \<noteq> []
         \<and> m = Val (sum_list (map Temperature_Anomaly
                                (filter (\<lambda>r. \<lfloor>real_of_int (Year r) / 10\<rfloor> * 10 = k) df))
                      / real (length (filter (\<lambda>r. \<lfloor>real_of_int (Year r) / 10\<rfloor> * 10 = k) df)))"
      by (simp add: mean_def decade_of_def)
  qed
qed

theorem decade_average_groups_witness:
  "(- (2 ^ 63) + 8 \<le> (1999 :: int) \<and> (1999 :: int) < 2 ^ 63)
   \<and> (- (2 ^ 63) + 8 \<le> (1991 :: int) \<and> (1991 :: int) < 2 ^ 63)
   \<and> (- (2 ^ 63) + 8 \<le> (1980 :: int) \<and> (1980 :: int) < 2 ^ 63)
   \<and> Decade [\<lparr>Year = 1999, Temperature_Anomaly = 1, Region = ''Global''\<rparr>,
             \<lparr>Year = 1991, Temperature_Anomaly = 2, Region = ''Global''\<rparr>,
             \<lparr>Year = 1980, Temperature_Anomaly = 2, Region = ''Global''\<rparr>]
       = [1990, 1990, 1980]
   \<and> set (map fst (decade_summary [\<lparr>Year = 1999, Temperature_Anomaly = 1, Region = ''Global''\<rparr>,
                     \<lparr>Year = 1991, Temperature_Anomaly = 2, Region = ''Global''\<rparr>,
                     \<lparr>Year = 1980, Temperature_Anomaly = 2, Region = ''Global''\<rparr>]))
       = {1980, 1990}
   \<and> decade_summary [\<lparr>Year = 1999, Temperature_Anomaly = 1, Region = ''Global''\<rparr>,
                     \<lparr>Year = 1991, Temperature_Anomaly = 2, Region = ''Global''\<rparr>,
                     \<lparr>Year = 1980, Temperature_Anomaly = 2, Region = ''Global''\<rparr>]
       = [(1980, Val 2), (1990, Val (3 / 2))]"
proof -
  let ?df = "[\<lparr>Year = 1999, Temperature_Anomaly = 1, Region = ''Global''\<rparr>,
              \<lparr>Year = 1991, Temperature_Anomaly = 2, Region = ''Global''\<rparr>,
              \<lparr>Year = 1980, Temperature_Anomaly = 2, Region = ''Global''\<rparr>]"
  have h: "\<forall>r \<in> set ?df. - (2 ^ 63) + 8 \<le> Year r \<and> Year r < 2 ^ 63"
    by simp
  note th = decade_average_groups [OF h]
  have d: "Decade ?df = [1990, 1990, 1980]"
    using th [THEN conjunct1] by simp
  have k: "set (map fst (decade_summary ?df)) = {1980, 1990}"
    using th [THEN conjunct2, THEN conjunct2, THEN conjunct2, THEN conjunct2, THEN conjunct1]
    by auto
  have s: "decade_summary ?df = [(1980, Val 2), (1990, Val (3 / 2))]"
    by (simp add: decade_summary_def groupby_mean_def d mean_def)
  show ?thesis
    using d k s by simp
qed

section \<open>Properties of the growth rate\<close>

lemma diff_Cons:
  "diff (x # c) = NaN # map (\<lambda>(a, b). Val (b - a)) (zip (x # c) c)"
proof -
  have "map (\<lambda>(a, b). sub_float a b) (zip (map Val c) (butlast (map Val (x # c))))
          = map (\<lambda>(a, b). Val (b - a)) (zip (x # c) c)" for x
    by (induction c arbitrary: x) simp_all
  then show ?thesis
    by (simp add: diff_def shift1_def)
qed

lemma diff_first_differences:
  "diff c = (if c = [] then [] else NaN # map (\<lambda>(a, b). Val (b - a)) (zip c (tl c)))"
  by (cases c) (simp_all add: diff_Cons, simp add: diff_def shift1_def)

text \<open>
  Claim C3, as the specification states it, fails on the script: on the three
  noise-free CO2 points of 1958 to 1960 the growth column has three entries, the first
  of them \<^verbatim>\<open>NaN\<close>, so it is neither the two-element list nor one shorter than its input.
\<close>

theorem growth_rate_counterexample:
  "Growth_Rate [\<lparr>Year = 1958, CO2_ppm = 315\<rparr>, \<lparr>Year = 1959, CO2_ppm = 3168 / 10\<rparr>,
                \<lparr>Year = 1960, CO2_ppm = 3186 / 10\<rparr>]
     = [NaN, Val (18 / 10), Val (18 / 10)]
   \<and> Growth_Rate [\<lparr>Year = 1958, CO2_ppm = 315\<rparr>, \<lparr>Year = 1959, CO2_ppm = 3168 / 10\<rparr>,
                  \<lparr>Year = 1960, CO2_ppm = 3186 / 10\<rparr>]
     \<noteq> [Val (18 / 10), Val (18 / 10)]
   \<and> length (Growth_Rate [\<lparr>Year = 1958, CO2_ppm = 315\<rparr>, \<lparr>Year = 1959, CO2_ppm = 3168 / 10\<rparr>,
                  \<lparr>Year = 1960, CO2_ppm = 3186 / 10\<rparr>])
     \<noteq> length [\<lparr>Year = 1958, CO2_ppm = 315\<rparr>, \<lparr>Year = 1959, CO2_ppm = 3168 / 10\<rparr>,
                  \<lparr>Year = 1960, CO2_ppm = 3186 / 10\<rparr>] - 1"
  by (simp add: Growth_Rate_def diff_def shift1_def)

text \<open>
  Claim C3, amended. The growth column has as many entries as the filtered CO2 table.
  On a table that is not empty its first entry is \<^verbatim>\<open>NaN\<close> and the entries after it are
  the differences of consecutive concentrations in row order, so the entries that are
  numbers are one fewer than the rows; on the empty table it is empty. On the noise-free
  points of 1958 to 1960 it is \<^verbatim>\<open>NaN\<close>, 1.8, 1.8.
\<close>

theorem growth_rate_leading_nan:
  "Growth_Rate f
     = (if f = [] then []
        else NaN # map (\<lambda>(a, b). Val (CO2_ppm b - CO2_ppm a)) (zip f (tl f)))
   \<and> length (Growth_Rate f) = length f
   \<and> length (filter (\<lambda>v. v \<noteq> NaN) (Growth_Rate f)) = length f - 1
   \<and> Growth_Rate [\<lparr>Year = 1958, CO2_ppm = 315\<rparr>, \<lparr>Year = 1959, CO2_ppm = 3168 / 10\<rparr>,
                  \<lparr>Year = 1960, CO2_ppm = 3186 / 10\<rparr>]
       = [NaN, Val (18 / 10), Val (18 / 10)]"
proof -
  have z: "map (\<lambda>(a, b). Val (b - a)) (zip (map CO2_ppm f) (tl (map CO2_ppm f)))
             = map (\<lambda>(a, b). Val (CO2_ppm b - CO2_ppm a)) (zip f (tl f))"
    by (auto simp add: zip_map_map simp flip: map_tl)
  have g: "Growth_Rate f
     = (if f = [] then []
        else NaN # map (\<lambda>(a, b). Val (CO2_ppm b - CO2_ppm a)) (zip f (tl f)))"
    by (simp add: Growth_Rate_def diff_first_differences z)
  have v: "filter (\<lambda>v. v \<noteq> NaN) (map (\<lambda>(a, b). Val (CO2_ppm b - CO2_ppm a)) xs)
             = map (\<lambda>(a, b). Val (CO2_ppm b - CO2_ppm a)) xs"
    for xs :: "(co2_row \<times> co2_row) list"
    by (induction xs) auto
  have "length (filter (\<lambda>v. v \<noteq> NaN) (Growth_Rate f)) = length f - 1"
    by (simp add: g v)
  moreover have "length (Growth_Rate f) = length f"
    by (cases f) (simp_all add: Growth_Rate_def diff_Cons, simp add: diff_def shift1_def)
  moreover have "Growth_Rate [\<lparr>Year = 1958, CO2_ppm = 315\<rparr>, \<lparr>Year = 1959, CO2_ppm = 3168 / 10\<rparr>,
                  \<lparr>Year = 1960, CO2_ppm = 3186 / 10\<rparr>]
       = [NaN, Val (18 / 10), Val (18 / 10)]"
    by (simp add: Growth_Rate_def diff_def shift1_def)
  ultimately show ?thesis using g by simp
qed

section \<open>Properties of the projection\<close>

lemma project_map:
  "project p r h = map (\<lambda>y. (y, snd p + real_of_int (y - fst p) * r)) [fst p..h - 1]"
  by (simp add: project_def py_range_def Let_def zip_map2 zip_same_conv_map)

text \<open>
  Claim C2, as the specification states it, fails on the script: from the last known
  point (2023, 100.0) with the rate 3.3 and the horizon 2025 the projection is
  (2023, 100.0), (2024, 103.3), and not (2024, 103.3), (2025, 106.6).
\<close>

theorem project_counterexample:
  "project (2023, 100) (33 / 10) 2025 = [(2023, 100), (2024, 1033 / 10)]
   \<and> project (2023, 100) (33 / 10) 2025 \<noteq> [(2024, 1033 / 10), (2025, 1066 / 10)]"
  by (simp add: project_def py_range_def Let_def upto_rec1)

text \<open>
  Claim C2, amended. The projection starts at the last known year itself (the start is
  inclusive): when that year is before the horizon, the first entry is the last known
  point. The years go up by one from entry to entry, every year from the last known
  year up to the year before the horizon is projected, no projected year lies before
  the last known year or beyond the horizon, and every entry has the value of the last
  known point plus the number of years since it times the rate. From
  (2023, 100.0) with the rate 3.3 and the horizon 2025 the projection begins
  (2023, 100.0), (2024, 103.3).
\<close>

theorem project_inclusive_start:
  "(\<forall>e \<in> set (project p r h). snd e = snd p + real_of_int (fst e - fst p) * r)
   \<and> (\<forall>y. fst p \<le> y \<and> y < h \<longrightarrow>
         (y, snd p + real_of_int (y - fst p) * r) \<in> set (project p r h))
   \<and> (fst p < h \<longrightarrow> hd (project p r h) = p)
   \<and> (\<forall>i. Suc i < length (project p r h) \<longrightarrow>
         fst (project p r h ! Suc i) = fst (project p r h ! i) + 1)
   \<and> take 2 (project (2023, 100) (33 / 10) 2025) = [(2023, 100), (2024, 1033 / 10)]
   \<and> (\<forall>e \<in> set (project p r h). fst p \<le> fst e \<and> fst e \<le> h)"
proof (intro conjI)
  show "\<forall>e \<in> set (project p r h). fst p \<le> fst e \<and> fst e \<le> h"
    by (auto simp add: project_map)
  show "\<forall>e \<in> set (project p r h). snd e = snd p + real_of_int (fst e - fst p) * r"
    by (auto simp add: project_map)
  show "\<forall>y. fst p \<le> y \<and> y < h \<longrightarrow>
         (y, snd p + real_of_int (y - fst p) * r) \<in> set (project p r h)"
    by (auto simp add: project_map)
  show "fst p < h \<longrightarrow> hd (project p r h) = p"
    by (simp add: project_map upto_rec1 [of "fst p"])
  show "\<forall>i. Suc i < length (project p r h) \<longrightarrow>
         fst (project p r h ! Suc i) = fst (project p r h ! i) + 1"
    by (simp add: project_map)
  show "take 2 (project (2023, 100) (33 / 10) 2025) = [(2023, 100), (2024, 1033 / 10)]"
    by (simp add: project_map upto_rec1)
qed

theorem project_inclusive_start_witness:
  "fst (2023 :: int, 100 :: real) < 2025
   \<and> hd (project (2023, 100) (33 / 10) 2025) = (2023, 100)
   \<and> (2024, 1033 / 10) \<in> set (project (2023, 100) (33 / 10) 2025)
   \<and> Suc 0 < length (project (2023, 100) (33 / 10) 2025)
   \<and> fst (project (2023, 100) (33 / 10) 2025 ! Suc 0)
       = fst (project (2023, 100) (33 / 10) 2025 ! 0) + 1"
proof -
  note th = project_inclusive_start [of "(2023, 100)" "33 / 10" 2025]
  have n: "Suc 0 < length (project (2023, 100) (33 / 10) 2025)"
    by (simp add: project_map)
  have "hd (project (2023, 100) (33 / 10) 2025) = (2023, 100)"
    using th [THEN conjunct2, THEN conjunct2, THEN conjunct1] by simp
  moreover have "(2024, 1033 / 10) \<in> set (project (2023, 100) (33 / 10) 2025)"
    using th [THEN conjunct2, THEN conjunct1, THEN spec, of 2024] by simp
  moreover have "fst (project (2023, 100) (33 / 10) 2025 ! Suc 0)
       = fst (project (2023, 100) (33 / 10) 2025 ! 0) + 1"
    using n th [THEN conjunct2, THEN conjunct2, THEN conjunct2, THEN conjunct1, THEN spec, of 0]
    by simp
  ultimately show ?thesis
    using n by simp
qed

section \<open>Properties of the correlation\<close>

lemma dot_self_nonneg: "0 \<le> dot a a"
  by (induction a) (simp_all add: dot_def)

lemma cs_step:
  fixes x y A B C :: real
  assumes "C\<^sup>2 \<le> A * B" "0 \<le> A" "0 \<le> B"
  shows "(x * y + C)\<^sup>2 \<le> (x * x + A) * (y * y + B)"
proof -
  have "(2 * x * y * C)\<^sup>2 = 4 * (x * y)\<^sup>2 * C\<^sup>2"
    by (simp add: power2_eq_square)
  also have "\<dots> \<le> 4 * (x * y)\<^sup>2 * (A * B)"
    using assms(1) by (intro mult_left_mono) simp_all
  also have "\<dots> \<le> (x * x * B + y * y * A)\<^sup>2"
  proof -
    have "0 \<le> (x * x * B - y * y * A)\<^sup>2" by simp
    then show ?thesis by (simp add: power2_eq_square algebra_simps)
  qed
  finally have "(2 * x * y * C)\<^sup>2 \<le> (x * x * B + y * y * A)\<^sup>2" .
  moreover have "0 \<le> x * x * B + y * y * A"
    using assms(2,3) by simp
  ultimately have "2 * x * y * C \<le> x * x * B + y * y * A"
    by (rule power2_le_imp_le)
  then show ?thesis
    using assms(1) by (simp add: power2_eq_square algebra_simps)
qed

lemma dot_cauchy_schwarz:
  "length a = length b \<Longrightarrow> (dot a b)\<^sup>2 \<le> dot a a * dot b b"
proof (induction a b rule: list_induct2)
  case Nil
  then show ?case by (simp add: dot_def)
next
  case (Cons x xs y ys)
  have "(x * y + dot xs ys)\<^sup>2 \<le> (x * x + dot xs xs) * (y * y + dot ys ys)"
    using Cons.IH dot_self_nonneg [of xs] dot_self_nonneg [of ys] by (rule cs_step)
  then show ?case by (simp add: dot_def)
qed

lemma centred_length: "length (centred c) = length c"
  by (simp add: centred_def)

lemma ratio_cancel:
  fixes c A B n :: real
  assumes "0 < n"
  shows "c / n / sqrt (A / n) / sqrt (B / n) = c / sqrt (A * B)"
proof -
  define s where "s = sqrt n"
  have s: "0 < s" "n = s * s"
    using assms by (simp_all add: s_def)
  have "c / (s * s) / (sqrt A / s) / (sqrt B / s) = c / (sqrt A * sqrt B)"
    using s(1) by (simp add: field_simps)
  then show ?thesis
    using s(1) by (simp add: s(2) real_sqrt_divide real_sqrt_mult del: real_sqrt_mult_self)
qed

lemma abs_ratio_le_1:
  fixes c s :: real
  assumes "\<bar>c\<bar> \<le> s"
  shows "\<bar>c / s\<bar> \<le> 1"
proof (cases "s = 0")
  case True
  then show ?thesis by simp
next
  case False
  with assms have "0 < s" by linarith
  then show ?thesis using assms by (simp add: divide_le_eq_1)
qed

lemma clip_unit_id: "- 1 \<le> x \<Longrightarrow> x \<le> 1 \<Longrightarrow> clip_unit x = x"
  by (simp add: clip_unit_def)

lemma clip_unit_bounds: "- 1 \<le> clip_unit x \<and> clip_unit x \<le> 1"
  by (simp add: clip_unit_def)

lemma corr_short: "length a < 2 \<Longrightarrow> corr a b v \<longleftrightarrow> v = NaN"
  by (cases a) (auto simp add: corr_def Let_def)

lemma pearson_r_bounds:
  assumes "length a = length b"
  shows "- 1 \<le> pearson_r a b \<and> pearson_r a b \<le> 1"
proof -
  let ?c = "dot (centred a) (centred b)"
  let ?s = "sqrt (dot (centred a) (centred a) * dot (centred b) (centred b))"
  have "?c\<^sup>2 \<le> dot (centred a) (centred a) * dot (centred b) (centred b)"
    using assms by (intro dot_cauchy_schwarz) (simp add: centred_length)
  then have "\<bar>?c\<bar> \<le> ?s"
    by (rule real_le_rsqrt [of "\<bar>?c\<bar>", simplified])
  then have "\<bar>?c / ?s\<bar> \<le> 1"
    by (rule abs_ratio_le_1)
  then show ?thesis
    unfolding pearson_r_def by linarith
qed

lemma corr_eq_pearson:
  assumes "length a = length b" "2 \<le> length a"
    and "dot (centred a) (centred a) \<noteq> 0" "dot (centred b) (centred b) \<noteq> 0"
  shows "corr a b v \<longleftrightarrow> v = Val (pearson_r a b)"
proof -
  have pos: "0 < real (length a - 1)"
    using assms(2) by simp
  have n0: "length a \<noteq> 0" "length a - 1 \<noteq> 0"
    using assms(2) by auto
  have nz: "\<not> (dot (centred a) (centred a) / real (length a - 1) = 0
             \<or> dot (centred b) (centred b) / real (length a - 1) = 0)"
    using assms(3,4) pos by simp
  have q: "dot (centred a) (centred b) / real (length a - 1)
             / sqrt (dot (centred a) (centred a) / real (length a - 1))
             / sqrt (dot (centred b) (centred b) / real (length a - 1))
           = pearson_r a b"
    unfolding pearson_r_def by (rule ratio_cancel [OF pos])
  have "clip_unit (pearson_r a b) = pearson_r a b"
    using pearson_r_bounds [OF assms(1)] by (simp add: clip_unit_id)
  then show ?thesis
    unfolding corr_def Let_def by (simp only: n0 nz if_False q)
qed

lemma corr_bounds:
  assumes "corr a b (Val r)"
  shows "- 1 \<le> r \<and> r \<le> 1"
proof (cases "length a < 2")
  case True
  then show ?thesis
    using assms corr_short [of a b "Val r"] by simp
next
  case False
  then have n0: "length a \<noteq> 0" "length a - 1 \<noteq> 0"
    by auto
  show ?thesis
    using assms clip_unit_bounds unfolding corr_def Let_def
    by (simp only: n0 if_False split: if_splits) auto
qed

lemma corr_total: "\<exists>v. corr a b v"
proof -
  have "corr a b NaN \<or> (\<exists>x. corr a b (Val x))"
    by (simp add: corr_def Let_def)
  then show ?thesis by blast
qed

text \<open>
  On a constant column the model admits both outcomes that float64 rounding produces:
  \<^verbatim>\<open>NaN\<close> and a number between -1 and 1.
\<close>

lemma corr_constant_column:
  "corr [1 / 10, 1 / 10, 1 / 10] [315, 317, 319] NaN
   \<and> corr [1 / 10, 1 / 10, 1 / 10] [315, 317, 319] (Val 0)"
  by (simp add: corr_def Let_def centred_def dot_def)

lemma merged_data_set:
  "set (merged_data t c)
     = {(Year l, Temperature_Anomaly l, CO2_ppm r) | l r.
          l \<in> set t \<and> Region l = ''Global'' \<and> r \<in> set c \<and> Year r = Year l}"
proof -
  have "select_rows t (col_eq (map Region t) ''Global'') = filter (\<lambda>l. Region l = ''Global'') t"
    by (simp add: col_eq_def select_rows_map comp_def)
  then show ?thesis
    by (auto simp add: merged_data_def)
qed

text \<open>
  Claim C4, as the specification states it, fails on the script: when the join has a
  single row, the correlation is the value \<^verbatim>\<open>NaN\<close> and nothing else; no error is
  raised.
\<close>

theorem correlation_counterexample:
  "length (merged_data [\<lparr>Year = 1958, Temperature_Anomaly = 1 / 10, Region = ''Global''\<rparr>]
                        [\<lparr>Year = 1958, CO2_ppm = 315\<rparr>]) = 1
   \<and> Collect (correlation [\<lparr>Year = 1958, Temperature_Anomaly = 1 / 10, Region = ''Global''\<rparr>]
                          [\<lparr>Year = 1958, CO2_ppm = 315\<rparr>]) = {NaN}"
  by (auto simp add: correlation_def merged_data_def corr_def merged_temp_def merged_co2_def
        select_rows_def col_eq_def)

text \<open>
  Claim C4, amended. The merged frame is the inner join on the year of the Global
  temperature rows with the CO2 rows, and the correlation always is a float: no error
  is raised. When the join has at least two rows and neither joined column is
  constant, the correlation is the Pearson coefficient of the two joined columns.
  Whenever the correlation is a number, it lies between -1 and 1. When the join has
  fewer than two rows, the correlation is \<^verbatim>\<open>NaN\<close>.
\<close>

theorem correlation_pearson_or_nan:
  "set (merged_data t c)
     = {(Year l, Temperature_Anomaly l, CO2_ppm r) | l r.
          l \<in> set t \<and> Region l = ''Global'' \<and> r \<in> set c \<and> Year r = Year l}
   \<and> (\<exists>v. correlation t c v)
   \<and> (length (merged_data t c) < 2 \<longrightarrow> Collect (correlation t c) = {NaN})
   \<and> (2 \<le> length (merged_data t c)
        \<and> dot (centred (merged_temp (merged_data t c))) (centred (merged_temp (merged_data t c))) \<noteq> 0
        \<and> dot (centred (merged_co2 (merged_data t c))) (centred (merged_co2 (merged_data t c))) \<noteq> 0
      \<longrightarrow> Collect (correlation t c)
            = {Val (pearson_r (merged_temp (merged_data t c)) (merged_co2 (merged_data t c)))})
   \<and> (\<forall>r. correlation t c (Val r) \<longrightarrow> - 1 \<le> r \<and> r \<le> 1)"
proof (intro conjI impI allI)
  show "set (merged_data t c)
     = {(Year l, Temperature_Anomaly l, CO2_ppm r) | l r.
          l \<in> set t \<and> Region l = ''Global'' \<and> r \<in> set c \<and> Year r = Year l}"
    by (rule merged_data_set)
next
  show "\<exists>v. correlation t c v"
    unfolding correlation_def Let_def by (rule corr_total)
next
  assume "length (merged_data t c) < 2"
  then have "correlation t c v \<longleftrightarrow> v = NaN" for v
    by (simp add: correlation_def Let_def corr_short merged_temp_def)
  then show "Collect (correlation t c) = {NaN}"
    by auto
next
  assume a: "2 \<le> length (merged_data t c)
        \<and> dot (centred (merged_temp (merged_data t c))) (centred (merged_temp (merged_data t c))) \<noteq> 0
        \<and> dot (centred (merged_co2 (merged_data t c))) (centred (merged_co2 (merged_data t c))) \<noteq> 0"
  have "correlation t c v
          \<longleftrightarrow> v = Val (pearson_r (merged_temp (merged_data t c)) (merged_co2 (merged_data t c)))"
    for v
    unfolding correlation_def Let_def
    using a by (intro corr_eq_pearson) (simp_all add: merged_temp_def merged_co2_def)
  then show "Collect (correlation t c)
            = {Val (pearson_r (merged_temp (merged_data t c)) (merged_co2 (merged_data t c)))}"
    by auto
next
  fix r
  assume "correlation t c (Val r)"
  then have "corr (merged_temp (merged_data t c)) (merged_co2 (merged_data t c)) (Val r)"
    by (simp add: correlation_def Let_def)
  then have "- 1 \<le> r \<and> r \<le> 1"
    by (rule corr_bounds)
  then show "- 1 \<le> r" and "r \<le> 1"
    by simp_all
qed

theorem correlation_pearson_or_nan_witness:
  "2 \<le> length (merged_data
          [\<lparr>Year = 1958, Temperature_Anomaly = 1 / 10, Region = ''Global''\<rparr>,
           \<lparr>Year = 1959, Temperature_Anomaly = 3 / 10, Region = ''Global''\<rparr>,
           \<lparr>Year = 1959, Temperature_Anomaly = 1 / 2, Region = ''Arctic''\<rparr>]
          [\<lparr>Year = 1958, CO2_ppm = 315\<rparr>, \<lparr>Year = 1959, CO2_ppm = 317\<rparr>])
   \<and> Collect (correlation
        [\<lparr>Year = 1958, Temperature_Anomaly = 1 / 10, Region = ''Global''\<rparr>,
         \<lparr>Year = 1959, Temperature_Anomaly = 3 / 10, Region = ''Global''\<rparr>,
         \<lparr>Year = 1959, Temperature_Anomaly = 1 / 2, Region = ''Arctic''\<rparr>]
        [\<lparr>Year = 1958, CO2_ppm = 315\<rparr>, \<lparr>Year = 1959, CO2_ppm = 317\<rparr>])
       = {Val (pearson_r [1 / 10, 3 / 10] [315, 317])}
   \<and> pearson_r [1 / 10, 3 / 10] [315, 317] = 1"
proof -
  let ?t = "[\<lparr>Year = 1958, Temperature_Anomaly = 1 / 10, Region = ''Global''\<rparr>,
             \<lparr>Year = 1959, Temperature_Anomaly = 3 / 10, Region = ''Global''\<rparr>,
             \<lparr>Year = 1959, Temperature_Anomaly = 1 / 2, Region = ''Arctic''\<rparr>]"
  let ?c = "[\<lparr>Year = 1958, CO2_ppm = 315\<rparr>, \<lparr>Year = 1959, CO2_ppm = 317\<rparr>]"
  have m: "merged_data ?t ?c = [(1958, 1 / 10, 315), (1959, 3 / 10, 317)]"
    by (simp add: merged_data_def select_rows_def col_eq_def)
  have cols: "merged_temp (merged_data ?t ?c) = [1 / 10, 3 / 10]"
    "merged_co2 (merged_data ?t ?c) = [315, 317]"
    by (simp_all add: m merged_temp_def merged_co2_def)
  have dots: "dot (centred [1 / 10, 3 / 10]) (centred [1 / 10, 3 / 10]) = 1 / 50"
    "dot (centred [315, 317]) (centred [315, 317]) = 2"
    "dot (centred [1 / 10, 3 / 10]) (centred [315, 317]) = 1 / 5"
    by (simp_all add: dot_def centred_def)
  have "sqrt (1 / 25) = 1 / 5"
    by (rule real_sqrt_unique) (simp_all add: power2_eq_square)
  then have r: "pearson_r [1 / 10, 3 / 10] [315, 317] = 1"
    by (simp add: pearson_r_def dots)
  have l: "2 \<le> length (merged_data ?t ?c)"
    by (simp add: m)
  from correlation_pearson_or_nan [of ?t ?c, THEN conjunct2, THEN conjunct2, THEN conjunct2,
      THEN conjunct1]
  have "Collect (correlation ?t ?c) = {Val (pearson_r [1 / 10, 3 / 10] [315, 317])}"
    using l by (simp add: cols dots)
  with l r show ?thesis
    by simp
qed

end
